theory Spec2Isabelle
  imports Main "HOL-Library.Signed_Division"
begin

section \<open>The messages of package v1beta1 that package response reads and writes\<close>

text \<open>
  A Go pointer to a message is an \<open>option\<close> (\<open>None\<close> is the nil pointer), and so
  is a Go map, since the code tells a nil map from an allocated one
  (\<^verbatim>\<open>GetFields() == nil\<close>). A map that is allocated is a partial function from its
  keys. The values held by a map or a slice are the messages themselves.
  \<open>'v\<close> stands for \<^verbatim>\<open>*structpb.Value\<close>, which this package only stores.
\<close>

record 'v Struct =
  Fields :: "(string \<rightharpoonup> 'v) option"

datatype v1beta1_Ready = READY_UNSPECIFIED | READY_TRUE | READY_FALSE

datatype Severity = SEVERITY_UNSPECIFIED | SEVERITY_FATAL | SEVERITY_WARNING | SEVERITY_NORMAL

type_synonym ConnectionDetails = "(string \<rightharpoonup> string) option"

record 'v Resource =
  Resource :: "'v Struct option"
  ConnectionDetails :: ConnectionDetails
  Ready :: v1beta1_Ready

record 'v State =
  Composite :: "'v Resource option"
  Resources :: "(string \<rightharpoonup> 'v Resource) option"

record MatchLabels =
  Labels :: "(string \<rightharpoonup> string) option"

datatype ResourceSelector_Match =
  ResourceSelector_MatchName string
| ResourceSelector_MatchLabels "MatchLabels option"

record ResourceSelector =
  ApiVersion :: string
  rs_Kind :: string
  Match :: "ResourceSelector_Match option"

record Requirements =
  ExtraResources :: "(string \<rightharpoonup> ResourceSelector) option"

record Result =
  Severity :: Severity
  Message :: string

text \<open>\<^verbatim>\<open>durationpb.Duration\<close>: whole seconds (int64) and nanoseconds (int32).\<close>

record Duration =
  Seconds :: int
  Nanos :: int

record ResponseMeta =
  Tag :: string
  Ttl :: "Duration option"

record RequestMeta =
  req_Tag :: string

text \<open>Of \<^verbatim>\<open>RunFunctionRequest\<close> only the three fields that \<^verbatim>\<open>To\<close> reads are kept.\<close>

record 'v RunFunctionRequest =
  req_Meta :: "RequestMeta option"
  req_Desired :: "'v State option"
  req_Context :: "'v Struct option"

record 'v RunFunctionResponse =
  Meta :: "ResponseMeta option"
  Desired :: "'v State option"
  Results :: "Result list option"
  Context :: "'v Struct option"
  Requirements :: "Requirements option"

subsection \<open>The generated getters, which accept a nil receiver\<close>

definition req_GetMeta :: "'v RunFunctionRequest option \<Rightarrow> RequestMeta option" where
  "req_GetMeta req = (case req of None \<Rightarrow> None | Some r \<Rightarrow> req_Meta r)"

definition req_GetTag :: "RequestMeta option \<Rightarrow> string" where
  "req_GetTag m = (case m of None \<Rightarrow> [] | Some x \<Rightarrow> req_Tag x)"

definition req_GetDesired :: "'v RunFunctionRequest option \<Rightarrow> 'v State option" where
  "req_GetDesired req = (case req of None \<Rightarrow> None | Some r \<Rightarrow> req_Desired r)"

definition req_GetContext :: "'v RunFunctionRequest option \<Rightarrow> 'v Struct option" where
  "req_GetContext req = (case req of None \<Rightarrow> None | Some r \<Rightarrow> req_Context r)"

definition GetTag :: "ResponseMeta option \<Rightarrow> string" where
  "GetTag m = (case m of None \<Rightarrow> [] | Some x \<Rightarrow> Tag x)"

definition GetTtl :: "ResponseMeta option \<Rightarrow> Duration option" where
  "GetTtl m = (case m of None \<Rightarrow> None | Some x \<Rightarrow> Ttl x)"

definition GetFields :: "'v Struct option \<Rightarrow> (string \<rightharpoonup> 'v) option" where
  "GetFields s = (case s of None \<Rightarrow> None | Some x \<Rightarrow> Fields x)"

definition GetComposite :: "'v State option \<Rightarrow> 'v Resource option" where
  "GetComposite s = (case s of None \<Rightarrow> None | Some x \<Rightarrow> Composite x)"

definition GetResources :: "'v State option \<Rightarrow> (string \<rightharpoonup> 'v Resource) option" where
  "GetResources s = (case s of None \<Rightarrow> None | Some x \<Rightarrow> Resources x)"

definition GetExtraResources :: "Requirements option \<Rightarrow> (string \<rightharpoonup> ResourceSelector) option" where
  "GetExtraResources r = (case r of None \<Rightarrow> None | Some x \<Rightarrow> ExtraResources x)"

text \<open>
  The response handed to the functions below is a non-nil pointer, so its getters are the
  fields: \<^verbatim>\<open>rsp.GetContext()\<close> is \<open>Context rsp\<close>, and so on. Each function takes
  the response and returns the response as the call leaves it.
\<close>

subsection \<open>Durations\<close>

text \<open>
  \<^verbatim>\<open>time.Duration\<close> is a count of nanoseconds (int64), and Go's \<^verbatim>\<open>/\<close> truncates
  towards zero. \<^verbatim>\<open>durationpb.New\<close> is
  \<^verbatim>\<open>nanos := d.Nanoseconds(); secs := nanos / 1e9; nanos -= secs * 1e9\<close>.
  Neither step leaves the int64 range, since \<open>secs * 1e9\<close> lies between 0 and \<open>d\<close>.
  \<^verbatim>\<open>AsDuration\<close> reads the message back as nanoseconds.
\<close>

definition durationpb_New :: "int \<Rightarrow> Duration" where
  "durationpb_New d =
     (let nanos = d;
          secs = nanos sdiv 1000000000;
          nanos = nanos - secs * 1000000000
      in \<lparr>Seconds = secs, Nanos = nanos\<rparr>)"

definition AsDuration :: "Duration \<Rightarrow> int" where
  "AsDuration x = Seconds x * 1000000000 + Nanos x"

subsection \<open>What the package takes from its collaborators\<close>

text \<open>
  Modelled from the spec: package \<^verbatim>\<open>errors\<close> of this repository is not among the
  sources. An error is either made from a message or wraps an underlying error under a
  message; \<^verbatim>\<open>Wrapf\<close> formats its message and wraps, and gives nil for a nil error, as
  the success path of \<^verbatim>\<open>SetDesiredCompositeResource\<close> needs. \<open>errors_Wrapf\<close> takes the
  message already formatted.
\<close>

datatype error = errors_New string | errors_Wrapped string error

fun Error :: "error \<Rightarrow> string" where
  "Error (errors_New message) = message"
| "Error (errors_Wrapped message cause) = message @ '': '' @ Error cause"

fun Unwrap :: "error \<Rightarrow> error option" where
  "Unwrap (errors_New message) = None"
| "Unwrap (errors_Wrapped message cause) = Some cause"

definition errors_Wrapf :: "error option \<Rightarrow> string \<Rightarrow> error option" where
  "errors_Wrapf err message =
     (case err of None \<Rightarrow> None | Some e \<Rightarrow> Some (errors_Wrapped message e))"

text \<open>
  Modelled from the spec: package \<^verbatim>\<open>resource\<close> of this repository is not among the
  sources. A composite carries a resource body and connection details; a desired
  composed resource carries a resource body and a readiness tri-state
  (unspecified/false/true). \<open>'o\<close> is the type of resource bodies. Both are handed over
  as non-nil pointers.

  \<^verbatim>\<open>resource.AsStruct\<close> is a parameter of the functions that call it, written
  \<open>AsStruct\<close>: like the Go function it returns a struct pointer and an error, and the
  call failed when the error is not nil. The name that the verb \<^verbatim>\<open>%T\<close> prints for a
  resource body is the parameter \<open>T\<close>.
\<close>

datatype resource_Ready = ReadyUnspecified | ReadyFalse | ReadyTrue

record 'o resource_Composite =
  xr_Resource :: 'o
  xr_ConnectionDetails :: ConnectionDetails

record 'o resource_DesiredComposed =
  dcd_Resource :: 'o
  dcd_Ready :: resource_Ready

text \<open>
  \<^verbatim>\<open>schema.GroupVersionKind\<close> of k8s.io/apimachinery, with its methods \<^verbatim>\<open>Empty\<close>
  and \<^verbatim>\<open>GroupVersion().String()\<close>.
\<close>

record GroupVersionKind =
  Group :: string
  Version :: string
  Kind :: string

definition Empty :: "GroupVersionKind \<Rightarrow> bool" where
  "Empty gvk = (length (Group gvk) = 0 \<and> length (Version gvk) = 0 \<and> length (Kind gvk) = 0)"

definition GroupVersion_String :: "GroupVersionKind \<Rightarrow> string" where
  "GroupVersion_String gvk =
     (if length (Group gvk) > 0 then Group gvk @ ''/'' @ Version gvk else Version gvk)"

text \<open>Go's \<^verbatim>\<open>append\<close> of one element: a nil slice counts as empty, the result is not nil.\<close>

definition go_append :: "'a list option \<Rightarrow> 'a \<Rightarrow> 'a list option" where
  "go_append s x = Some ((case s of None \<Rightarrow> [] | Some xs \<Rightarrow> xs) @ [x])"

section \<open>Package response\<close>

subsection \<open>To\<close>

text \<open>
  \<^verbatim>\<open>To\<close> reads the request through getters only, so a nil request is accepted too.
  The response shares the request's desired state and context; the model keeps their
  values.
\<close>

definition To :: "'v RunFunctionRequest option \<Rightarrow> int \<Rightarrow> 'v RunFunctionResponse" where
  "To req ttl =
     \<lparr>Meta = Some \<lparr>Tag = req_GetTag (req_GetMeta req), Ttl = Some (durationpb_New ttl)\<rparr>,
      Desired = req_GetDesired req,
      Results = None,
      Context = req_GetContext req,
      Requirements = None\<rparr>"

subsection \<open>SetContextKey\<close>

text \<open>
  Every function below first allocates the containers it is about to write into, when
  they are nil, and then stores. The store is written through \<open>map_option\<close>; the
  allocation before it leaves the containers non-nil, so the store always takes place.
\<close>

definition SetContextKey :: "'v RunFunctionResponse \<Rightarrow> string \<Rightarrow> 'v \<Rightarrow> 'v RunFunctionResponse" where
  "SetContextKey rsp key v =
     (let rsp = (if GetFields (Context rsp) = None
                 then rsp\<lparr>Context := Some \<lparr>Fields = Some Map.empty\<rparr>\<rparr> else rsp)
      in rsp\<lparr>Context := map_option (\<lambda>c. c\<lparr>Fields := map_option (\<lambda>m. m(key \<mapsto> v)) (Fields c)\<rparr>)
                             (Context rsp)\<rparr>)"

subsection \<open>SetDesiredCompositeResource\<close>

text \<open>The zero value \<^verbatim>\<open>&v1beta1.State{}\<close>.\<close>

definition zero_State :: "'v State" where
  "zero_State = \<lparr>Composite = None, Resources = None\<rparr>"

definition SetDesiredCompositeResource ::
  "('o \<Rightarrow> 'v Struct option \<times> error option) \<Rightarrow> ('o \<Rightarrow> string) \<Rightarrow>
   'v RunFunctionResponse \<Rightarrow> 'o resource_Composite \<Rightarrow> 'v RunFunctionResponse \<times> error option" where
  "SetDesiredCompositeResource AsStruct T rsp xr =
     (let rsp = (if Desired rsp = None then rsp\<lparr>Desired := Some zero_State\<rparr> else rsp);
          (s, err) = AsStruct (xr_Resource xr);
          rsp = rsp\<lparr>Desired := map_option
                  (\<lambda>d. d\<lparr>Composite := Some \<lparr>Resource = s,
                                             ConnectionDetails = xr_ConnectionDetails xr,
                                             Ready = READY_UNSPECIFIED\<rparr>\<rparr>)
                  (Desired rsp)\<rparr>
      in (rsp, errors_Wrapf err
                 (''cannot convert '' @ T (xr_Resource xr) @ '' to desired composite resource'')))"

subsection \<open>SetDesiredComposedResources\<close>

text \<open>
  The switch on \<^verbatim>\<open>dcd.Ready\<close>, applied to the resource \<open>r\<close> built just before it.
  The switch has no default branch; its three cases are the three variants.
\<close>

definition set_Ready :: "resource_Ready \<Rightarrow> 'v Resource \<Rightarrow> 'v Resource" where
  "set_Ready ready r =
     (case ready of
        ReadyUnspecified \<Rightarrow> r\<lparr>Ready := READY_UNSPECIFIED\<rparr>
      | ReadyFalse \<Rightarrow> r\<lparr>Ready := READY_FALSE\<rparr>
      | ReadyTrue \<Rightarrow> r\<lparr>Ready := READY_TRUE\<rparr>)"

text \<open>\<^verbatim>\<open>rsp.Desired.Resources[string(name)] = r\<close>\<close>

definition store_Resource ::
  "'v RunFunctionResponse \<Rightarrow> string \<Rightarrow> 'v Resource \<Rightarrow> 'v RunFunctionResponse" where
  "store_Resource rsp name r =
     rsp\<lparr>Desired := map_option
            (\<lambda>d. d\<lparr>Resources := map_option (\<lambda>m. m(name \<mapsto> r)) (Resources d)\<rparr>) (Desired rsp)\<rparr>"

text \<open>
  The loop over \<^verbatim>\<open>dcds\<close>. Go ranges over a map in an order of its own choosing; the
  list is the map's entries in the order of this run, so a statement about every list
  is a statement about every order.
\<close>

fun range_dcds ::
  "('o \<Rightarrow> 'v Struct option \<times> error option) \<Rightarrow> 'v RunFunctionResponse \<Rightarrow>
   (string \<times> 'o resource_DesiredComposed) list \<Rightarrow> 'v RunFunctionResponse \<times> error option" where
  "range_dcds AsStruct rsp [] = (rsp, None)"
| "range_dcds AsStruct rsp ((name, dcd) # rest) =
     (case AsStruct (dcd_Resource dcd) of
        (s, Some err) \<Rightarrow> (rsp, Some err)
      | (s, None) \<Rightarrow>
          (let r = \<lparr>Resource = s, ConnectionDetails = None, Ready = READY_UNSPECIFIED\<rparr>;
               r = set_Ready (dcd_Ready dcd) r
           in range_dcds AsStruct (store_Resource rsp name r) rest))"

definition SetDesiredComposedResources ::
  "('o \<Rightarrow> 'v Struct option \<times> error option) \<Rightarrow> 'v RunFunctionResponse \<Rightarrow>
   (string \<times> 'o resource_DesiredComposed) list \<Rightarrow> 'v RunFunctionResponse \<times> error option" where
  "SetDesiredComposedResources AsStruct rsp dcds =
     (let rsp = (if Desired rsp = None then rsp\<lparr>Desired := Some zero_State\<rparr> else rsp);
          rsp = (if GetResources (Desired rsp) = None
                 then rsp\<lparr>Desired := map_option (\<lambda>d. d\<lparr>Resources := Some Map.empty\<rparr>) (Desired rsp)\<rparr>
                 else rsp)
      in range_dcds AsStruct rsp dcds)"

subsection \<open>RequestExtraResourceByName and RequestExtraResourceByLabels\<close>

text \<open>\<^verbatim>\<open>rsp.Requirements.ExtraResources[id] = sel\<close>; the parameter \<^verbatim>\<open>id\<close> is written \<open>ident\<close>.\<close>

definition store_ExtraResource ::
  "'v RunFunctionResponse \<Rightarrow> string \<Rightarrow> ResourceSelector \<Rightarrow> 'v RunFunctionResponse" where
  "store_ExtraResource rsp ident sel =
     rsp\<lparr>Requirements := map_option
            (\<lambda>r. r\<lparr>ExtraResources := map_option (\<lambda>m. m(ident \<mapsto> sel)) (ExtraResources r)\<rparr>)
            (Requirements rsp)\<rparr>"

definition RequestExtraResourceByName ::
  "'v RunFunctionResponse \<Rightarrow> string \<Rightarrow> string \<Rightarrow> GroupVersionKind \<Rightarrow>
   'v RunFunctionResponse \<times> error option" where
  "RequestExtraResourceByName rsp ident name gvk =
     (if Empty gvk
      then (rsp, Some (errors_New ''cannot request extra resource by name with empty GVK''))
      else if ident = ''''
      then (rsp, Some (errors_New ''cannot request extra resource by name with empty ID''))
      else if name = ''''
      then (rsp, Some (errors_New ''cannot request extra resource by empty name with empty name''))
      else
        (let rsp = (if Requirements rsp = None
                    then rsp\<lparr>Requirements := Some \<lparr>ExtraResources = None\<rparr>\<rparr> else rsp);
             rsp = (if GetExtraResources (Requirements rsp) = None
                    then rsp\<lparr>Requirements := map_option (\<lambda>r. r\<lparr>ExtraResources := Some Map.empty\<rparr>)
                                                (Requirements rsp)\<rparr>
                    else rsp)
         in (store_ExtraResource rsp ident
               \<lparr>ApiVersion = GroupVersion_String gvk,
                rs_Kind = Kind gvk,
                Match = Some (ResourceSelector_MatchName name)\<rparr>,
             None)))"

definition RequestExtraResourceByLabels ::
  "'v RunFunctionResponse \<Rightarrow> string \<Rightarrow> (string \<rightharpoonup> string) option \<Rightarrow> GroupVersionKind \<Rightarrow>
   'v RunFunctionResponse \<times> error option" where
  "RequestExtraResourceByLabels rsp ident labels gvk =
     (if Empty gvk
      then (rsp, Some (errors_New ''cannot request extra resource by name with empty GVK''))
      else if ident = ''''
      then (rsp, Some (errors_New ''cannot request extra resource by name with empty ID''))
      else
        (let rsp = (if Requirements rsp = None
                    then rsp\<lparr>Requirements := Some \<lparr>ExtraResources = None\<rparr>\<rparr> else rsp);
             rsp = (if GetExtraResources (Requirements rsp) = None
                    then rsp\<lparr>Requirements := map_option (\<lambda>r. r\<lparr>ExtraResources := Some Map.empty\<rparr>)
                                                (Requirements rsp)\<rparr>
                    else rsp)
         in (store_ExtraResource rsp ident
               \<lparr>ApiVersion = GroupVersion_String gvk,
                rs_Kind = Kind gvk,
                Match = Some (ResourceSelector_MatchLabels (Some \<lparr>Labels = labels\<rparr>))\<rparr>,
             None)))"

subsection \<open>Fatal, Warning, Normal and Normalf\<close>

text \<open>
  The error handed to \<^verbatim>\<open>Fatal\<close> and \<^verbatim>\<open>Warning\<close> is a Go interface value: nil
  (\<open>None\<close>) or an error. On a nil error the call \<^verbatim>\<open>err.Error()\<close> panics with a nil
  pointer dereference. It is evaluated after the results have been allocated and before
  the appended slice is assigned, so the panic leaves the response with its results
  allocated and nothing appended. \<open>Fatal\<close> and \<open>Warning\<close> return the response as
  they leave it, and the panic if there was one. \<^verbatim>\<open>Normal\<close> and \<^verbatim>\<open>Normalf\<close> make
  no such call. \<^verbatim>\<open>fmt.Sprintf\<close> is the parameter \<open>Sprintf\<close> of \<open>Normalf\<close>.
\<close>

datatype panic = nil_pointer_dereference

definition Fatal ::
  "'v RunFunctionResponse \<Rightarrow> error option \<Rightarrow> 'v RunFunctionResponse \<times> panic option" where
  "Fatal rsp err =
     (let rsp = (if Results rsp = None then rsp\<lparr>Results := Some []\<rparr> else rsp)
      in case err of
           None \<Rightarrow> (rsp, Some nil_pointer_dereference)
         | Some e \<Rightarrow>
             (rsp\<lparr>Results := go_append (Results rsp)
                                  \<lparr>Severity = SEVERITY_FATAL, Message = Error e\<rparr>\<rparr>, None))"

definition Warning ::
  "'v RunFunctionResponse \<Rightarrow> error option \<Rightarrow> 'v RunFunctionResponse \<times> panic option" where
  "Warning rsp err =
     (let rsp = (if Results rsp = None then rsp\<lparr>Results := Some []\<rparr> else rsp)
      in case err of
           None \<Rightarrow> (rsp, Some nil_pointer_dereference)
         | Some e \<Rightarrow>
             (rsp\<lparr>Results := go_append (Results rsp)
                                  \<lparr>Severity = SEVERITY_WARNING, Message = Error e\<rparr>\<rparr>, None))"

definition Normal :: "'v RunFunctionResponse \<Rightarrow> string \<Rightarrow> 'v RunFunctionResponse" where
  "Normal rsp message =
     (let rsp = (if Results rsp = None then rsp\<lparr>Results := Some []\<rparr> else rsp)
      in rsp\<lparr>Results := go_append (Results rsp)
                           \<lparr>Severity = SEVERITY_NORMAL, Message = message\<rparr>\<rparr>)"

definition Normalf ::
  "(string \<Rightarrow> 'a list \<Rightarrow> string) \<Rightarrow> 'v RunFunctionResponse \<Rightarrow> string \<Rightarrow> 'a list \<Rightarrow>
   'v RunFunctionResponse" where
  "Normalf Sprintf rsp format a = Normal rsp (Sprintf format a)"

subsection \<open>Reading a response\<close>

text \<open>
  What a reader of the response finds under a key: Go's lookup in a map, where a nil map
  has no entries, and the results as a sequence, where a nil slice is empty.
\<close>

definition context_entry :: "'v RunFunctionResponse \<Rightarrow> string \<Rightarrow> 'v option" where
  "context_entry rsp k = (case GetFields (Context rsp) of None \<Rightarrow> None | Some m \<Rightarrow> m k)"

definition resources_entry :: "'v RunFunctionResponse \<Rightarrow> string \<Rightarrow> 'v Resource option" where
  "resources_entry rsp name = (case GetResources (Desired rsp) of None \<Rightarrow> None | Some m \<Rightarrow> m name)"

definition extra_entry :: "'v RunFunctionResponse \<Rightarrow> string \<Rightarrow> ResourceSelector option" where
  "extra_entry rsp ident =
     (case GetExtraResources (Requirements rsp) of None \<Rightarrow> None | Some m \<Rightarrow> m ident)"

definition results_list :: "'v RunFunctionResponse \<Rightarrow> Result list" where
  "results_list rsp = (case Results rsp of None \<Rightarrow> [] | Some xs \<Rightarrow> xs)"

subsection \<open>Names for the parts of SetDesiredComposedResources\<close>

text \<open>
  \<open>built_Resource\<close> is the resource \<open>r\<close> that one round of the loop stores,
  \<open>serializes\<close> says that \<^verbatim>\<open>AsStruct\<close> returned a nil error for an entry, and
  \<open>alloc_Desired\<close> is the two allocations that precede the loop
  (lemma \<open>SetDesiredComposedResources_eq\<close>).
\<close>

definition built_Resource ::
  "('o \<Rightarrow> 'v Struct option \<times> error option) \<Rightarrow> 'o resource_DesiredComposed \<Rightarrow> 'v Resource" where
  "built_Resource AsStruct dcd =
     set_Ready (dcd_Ready dcd)
       \<lparr>Resource = fst (AsStruct (dcd_Resource dcd)), ConnectionDetails = None,
        Ready = READY_UNSPECIFIED\<rparr>"

definition serializes :: "('o \<Rightarrow> 'v Struct option \<times> error option) \<Rightarrow> 'o resource_DesiredComposed \<Rightarrow> bool" where
  "serializes AsStruct dcd = (snd (AsStruct (dcd_Resource dcd)) = None)"

definition alloc_Desired :: "'v RunFunctionResponse \<Rightarrow> 'v RunFunctionResponse" where
  "alloc_Desired rsp =
     (let rsp = (if Desired rsp = None then rsp\<lparr>Desired := Some zero_State\<rparr> else rsp);
          rsp = (if GetResources (Desired rsp) = None
                 then rsp\<lparr>Desired := map_option (\<lambda>d. d\<lparr>Resources := Some Map.empty\<rparr>) (Desired rsp)\<rparr>
                 else rsp)
      in rsp)"

subsection \<open>Sequences of calls to the result appenders\<close>





subsection \<open>What the specification expects\<close>


text \<open>
  The readiness mapping as the specification gives it: a total function on the three
  variants.
\<close>

fun ready_enum :: "resource_Ready \<Rightarrow> v1beta1_Ready" where
  "ready_enum ReadyUnspecified = READY_UNSPECIFIED"
| "ready_enum ReadyFalse = READY_FALSE"
| "ready_enum ReadyTrue = READY_TRUE"

text \<open>
  The conversion error of the specification: an error that wraps the underlying
  serialization failure and names the offending type. \<open>wraps e cause\<close> says that
  \<open>cause\<close> is reached from \<open>e\<close> by unwrapping, and \<open>contains\<close> that a string occurs
  in another.
\<close>

fun wraps :: "error \<Rightarrow> error \<Rightarrow> bool" where
  "wraps (errors_New message) cause = False"
| "wraps (errors_Wrapped message e) cause = (e = cause \<or> wraps e cause)"

fun contains :: "string \<Rightarrow> string \<Rightarrow> bool" where
  "contains xs [] = (xs = [])"
| "contains xs (y # ys) = (take (length xs) (y # ys) = xs \<or> contains xs ys)"

definition conversion_error :: "string \<Rightarrow> error \<Rightarrow> error \<Rightarrow> bool" where
  "conversion_error type_name cause e = (wraps e cause \<and> contains type_name (Error e))"

text \<open>
  Modelled from the spec: \<^verbatim>\<open>resource.AsStruct\<close> of this repository is not among the
  sources. By the specification, a resource body that cannot be serialized into the
  structured-value form gives a conversion error, which wraps the underlying
  serialization failure and names the offending type. \<open>marshal\<close> is the underlying
  serializer, with its failure on the left, and \<open>T\<close> the name that \<^verbatim>\<open>%T\<close> prints. The
  specification does not give the words of the message around the type name; the ones
  here stand for them, and the statements below use only that the type name is part of
  the message.
\<close>

definition resource_AsStruct ::
  "('o \<Rightarrow> error + 'v Struct) \<Rightarrow> ('o \<Rightarrow> string) \<Rightarrow> 'o \<Rightarrow> 'v Struct option \<times> error option" where
  "resource_AsStruct marshal T body =
     (case marshal body of
        Inl cause \<Rightarrow> (None, Some (errors_Wrapped (''cannot create new Struct from '' @ T body) cause))
      | Inr s \<Rightarrow> (Some s, None))"

subsection \<open>Concrete inputs\<close>

text \<open>
  A serializer to run the functions on: a resource body is a list of fields, it
  serializes to the struct of these fields, and a body that repeats a field name does not
  serialize. \<open>fields_T\<close> is the name of the type of these bodies, and
  \<open>fields_AsStruct\<close> is \<^verbatim>\<open>resource.AsStruct\<close> over this serializer.
\<close>

definition fields_marshal :: "(string \<times> nat) list \<Rightarrow> error + nat Struct" where
  "fields_marshal body =
     (if distinct (map fst body) then Inr \<lparr>Fields = Some (map_of body)\<rparr>
      else Inl (errors_New ''duplicate field''))"

definition fields_T :: "(string \<times> nat) list \<Rightarrow> string" where
  "fields_T body = ''[]field''"

definition fields_AsStruct :: "(string \<times> nat) list \<Rightarrow> nat Struct option \<times> error option" where
  "fields_AsStruct = resource_AsStruct fields_marshal fields_T"

text \<open>
  \<^verbatim>\<open>fmt.Sprintf\<close> on string arguments, for formats whose only directives are
  \<^verbatim>\<open>%s\<close>, \<^verbatim>\<open>%v\<close> and \<^verbatim>\<open>%%\<close>: a \<^verbatim>\<open>%s\<close> or \<^verbatim>\<open>%v\<close> becomes the next
  argument, \<^verbatim>\<open>%%\<close> a percent sign; a directive without an argument is marked
  \<^verbatim>\<open>%!s(MISSING)\<close> and arguments left over are listed as \<^verbatim>\<open>%!(EXTRA string=...)\<close>.
  Formats with flags, widths or other verbs are outside this fragment, and nothing below
  uses the function on them.
\<close>

fun format_strings :: "string \<Rightarrow> string list \<Rightarrow> string \<times> string list" where
  "format_strings [] a = ([], a)"
| "format_strings [c] a = (if c = CHR ''%'' then (''%!(NOVERB)'', a) else ([c], a))"
| "format_strings (c # d # cs) a =
     (if c \<noteq> CHR ''%''
      then (case format_strings (d # cs) a of (out, rest) \<Rightarrow> (c # out, rest))
      else if d = CHR ''%''
      then (case format_strings cs a of (out, rest) \<Rightarrow> (CHR ''%'' # out, rest))
      else (case a of
              [] \<Rightarrow> (case format_strings cs [] of
                         (out, rest) \<Rightarrow> (''%!'' @ [d] @ ''(MISSING)'' @ out, rest))
            | x # xs \<Rightarrow> (case format_strings cs xs of (out, rest) \<Rightarrow> (x @ out, rest))))"

fun extra_strings :: "string list \<Rightarrow> string" where
  "extra_strings [] = []"
| "extra_strings [x] = ''string='' @ x"
| "extra_strings (x # y # xs) = ''string='' @ x @ '', '' @ extra_strings (y # xs)"

definition Sprintf_strings :: "string \<Rightarrow> string list \<Rightarrow> string" where
  "Sprintf_strings format a =
     (case format_strings format a of
        (out, []) \<Rightarrow> out
      | (out, x # xs) \<Rightarrow> out @ ''%!(EXTRA '' @ extra_strings (x # xs) @ '')'')"

text \<open>
  A response whose containers all hold an entry, the group/version/kind of the
  specification's scenario, and desired resources of which \<open>bad_dcd\<close> and \<open>bad_xr\<close>
  do not serialize.
\<close>

definition populated_rsp :: "nat RunFunctionResponse" where
  "populated_rsp =
     \<lparr>Meta = Some \<lparr>Tag = ''abc'', Ttl = Some \<lparr>Seconds = 60, Nanos = 0\<rparr>\<rparr>,
      Desired = Some \<lparr>Composite = None,
                      Resources = Some [''db'' \<mapsto> \<lparr>Resource = None, ConnectionDetails = None,
                                                  Ready = READY_TRUE\<rparr>]\<rparr>,
      Results = Some [\<lparr>Severity = SEVERITY_WARNING, Message = ''earlier''\<rparr>],
      Context = Some \<lparr>Fields = Some [''note'' \<mapsto> 7]\<rparr>,
      Requirements = Some \<lparr>ExtraResources =
        Some [''req-0'' \<mapsto> \<lparr>ApiVersion = ''v1'', rs_Kind = ''Secret'',
                               Match = Some (ResourceSelector_MatchName ''s'')\<rparr>]\<rparr>\<rparr>"

definition widget_gvk :: GroupVersionKind where
  "widget_gvk = \<lparr>Group = ''example.org'', Version = ''v1'', Kind = ''Widget''\<rparr>"

definition cache_dcd :: "(string \<times> nat) list resource_DesiredComposed" where
  "cache_dcd = \<lparr>dcd_Resource = [(''size'', 3)], dcd_Ready = ReadyTrue\<rparr>"

definition bad_dcd :: "(string \<times> nat) list resource_DesiredComposed" where
  "bad_dcd = \<lparr>dcd_Resource = [(''size'', 1), (''size'', 2)], dcd_Ready = ReadyFalse\<rparr>"

definition queue_dcd :: "(string \<times> nat) list resource_DesiredComposed" where
  "queue_dcd = \<lparr>dcd_Resource = [], dcd_Ready = ReadyUnspecified\<rparr>"

definition bad_xr :: "(string \<times> nat) list resource_Composite" where
  "bad_xr = \<lparr>xr_Resource = [(''size'', 1), (''size'', 2)],
             xr_ConnectionDetails = Some [''password'' \<mapsto> ''hunter2'']\<rparr>"

section \<open>Properties\<close>

subsection \<open>To\<close>

lemma AsDuration_New: "AsDuration (durationpb_New d) = d"
  by (simp add: AsDuration_def durationpb_New_def Let_def)

lemma Nanos_New_bound: "\<bar>Nanos (durationpb_New d)\<bar> < 1000000000"
proof -
  have "d - d sdiv 1000000000 * 1000000000 = d smod 1000000000"
    by (rule minus_sdiv_mult_eq_smod)
  moreover have "\<bar>d smod 1000000000\<bar> < 1000000000"
    by (simp add: signed_modulo_int_def abs_mult)
  ultimately show ?thesis
    by (simp add: durationpb_New_def Let_def)
qed

text \<open>
  Claim C1. For every request (nil included) and every ttl, the response that \<open>To\<close>
  builds carries the request's tag, the request's desired state, the request's context
  and a ttl message that denotes exactly the ttl given. \<open>To\<close> is total: it has no
  failing branch.
\<close>

theorem C1_To_echoes_request:
  "GetTag (Meta (To req ttl)) = req_GetTag (req_GetMeta req)
   \<and> Desired (To req ttl) = req_GetDesired req
   \<and> Context (To req ttl) = req_GetContext req
   \<and> map_option AsDuration (GetTtl (Meta (To req ttl))) = Some ttl"
  by (simp add: To_def GetTag_def GetTtl_def AsDuration_New)

subsection \<open>Unfolding sets for running the functions on the concrete inputs\<close>

lemmas example_defs = cache_dcd_def bad_dcd_def queue_dcd_def fields_AsStruct_def fields_T_def
  fields_marshal_def resource_AsStruct_def populated_rsp_def widget_gvk_def

lemmas eval_defs = SetDesiredComposedResources_def range_dcds.simps store_Resource_def set_Ready_def
  resources_entry_def GetResources_def GetComposite_def zero_State_def serializes_def
  built_Resource_def Let_def

subsection \<open>SetContextKey\<close>

lemma SetContextKey_allocated: "GetFields (Context (SetContextKey rsp key v)) \<noteq> None"
  by (cases "Context rsp") (auto simp: SetContextKey_def GetFields_def Let_def split: option.splits)

lemma context_entry_SetContextKey:
  "context_entry (SetContextKey rsp key v) = (context_entry rsp)(key \<mapsto> v)"
  by (rule ext) (auto simp: context_entry_def SetContextKey_def GetFields_def Let_def split: option.splits)

lemma SetContextKey_frame: "SetContextKey rsp key v = rsp\<lparr>Context := Context (SetContextKey rsp key v)\<rparr>"
  by (simp add: SetContextKey_def Let_def)

text \<open>
  Claim C5. Setting two different keys one after the other leaves both values in the
  context. Setting the same key twice leaves the later value there, and the context has
  the same keys, hence the same size, as after the first of the two calls.
\<close>

theorem C5_context_keys:
  "(k1 \<noteq> k2 \<longrightarrow>
      context_entry (SetContextKey (SetContextKey r k1 v1) k2 v2) k1 = Some v1
    \<and> context_entry (SetContextKey (SetContextKey r k1 v1) k2 v2) k2 = Some v2)
   \<and> context_entry (SetContextKey (SetContextKey r k v1) k v2) k = Some v2
   \<and> dom (context_entry (SetContextKey (SetContextKey r k v1) k v2))
       = dom (context_entry (SetContextKey r k v1))
   \<and> card (dom (context_entry (SetContextKey (SetContextKey r k v1) k v2)))
       = card (dom (context_entry (SetContextKey r k v1)))"
  by (simp add: context_entry_SetContextKey)

theorem C5_witness:
  "''note'' \<noteq> ''other''
   \<and> context_entry (SetContextKey (SetContextKey (To None 0) ''note'' (1::nat)) ''other'' 2) ''note'' = Some 1
   \<and> context_entry (SetContextKey (SetContextKey (To None 0) ''note'' (1::nat)) ''other'' 2) ''other'' = Some 2
   \<and> context_entry (SetContextKey (SetContextKey (To None 0) ''note'' (1::nat)) ''note'' 2) ''note'' = Some 2"
  using C5_context_keys [where ?k1.0 = "''note''" and ?k2.0 = "''other''" and r = "To None 0"
                           and ?v1.0 = "1::nat" and ?v2.0 = 2 and k = "''note''"]
  by simp

subsection \<open>RequestExtraResourceByName and RequestExtraResourceByLabels\<close>

lemma extra_entry_ByName:
  "extra_entry (fst (RequestExtraResourceByName rsp ident name gvk)) =
     (if Empty gvk \<or> ident = '''' \<or> name = '''' then extra_entry rsp
      else (extra_entry rsp)(ident \<mapsto>
             \<lparr>ApiVersion = GroupVersion_String gvk, rs_Kind = Kind gvk,
              Match = Some (ResourceSelector_MatchName name)\<rparr>))"
  by (rule ext, cases "Requirements rsp")
     (auto simp: RequestExtraResourceByName_def extra_entry_def store_ExtraResource_def
                 GetExtraResources_def Let_def split: option.splits)

lemma extra_entry_ByLabels:
  "extra_entry (fst (RequestExtraResourceByLabels rsp ident labels gvk)) =
     (if Empty gvk \<or> ident = '''' then extra_entry rsp
      else (extra_entry rsp)(ident \<mapsto>
             \<lparr>ApiVersion = GroupVersion_String gvk, rs_Kind = Kind gvk,
              Match = Some (ResourceSelector_MatchLabels (Some \<lparr>Labels = labels\<rparr>))\<rparr>))"
  by (rule ext, cases "Requirements rsp")
     (auto simp: RequestExtraResourceByLabels_def extra_entry_def store_ExtraResource_def
                 GetExtraResources_def Let_def split: option.splits)

lemma ByName_frame:
  "fst (RequestExtraResourceByName rsp ident name gvk) =
   rsp\<lparr>Requirements := Requirements (fst (RequestExtraResourceByName rsp ident name gvk))\<rparr>"
  by (simp add: RequestExtraResourceByName_def store_ExtraResource_def Let_def)

lemma ByLabels_frame:
  "fst (RequestExtraResourceByLabels rsp ident labels gvk) =
   rsp\<lparr>Requirements := Requirements (fst (RequestExtraResourceByLabels rsp ident labels gvk))\<rparr>"
  by (simp add: RequestExtraResourceByLabels_def store_ExtraResource_def Let_def)

lemma ByLabels_ok:
  "\<not> Empty gvk \<Longrightarrow> ident \<noteq> '''' \<Longrightarrow> snd (RequestExtraResourceByLabels rsp ident labels gvk) = None"
  by (simp add: RequestExtraResourceByLabels_def Let_def)

text \<open>
  Claim C2. When the id is empty or the group/version/kind is empty, both functions
  return an error made by \<^verbatim>\<open>errors.New\<close> and hand the response back as it was: the
  requirements are the same value as before, a nil pointer when they were nil.
\<close>

theorem C2_empty_id_or_gvk_rejected:
  assumes "Empty gvk \<or> ident = ''''"
  shows "(\<exists>message. snd (RequestExtraResourceByName rsp ident name gvk) = Some (errors_New message))
       \<and> fst (RequestExtraResourceByName rsp ident name gvk) = rsp
       \<and> Requirements (fst (RequestExtraResourceByName rsp ident name gvk)) = Requirements rsp
       \<and> (\<exists>message. snd (RequestExtraResourceByLabels rsp ident labels gvk) = Some (errors_New message))
       \<and> fst (RequestExtraResourceByLabels rsp ident labels gvk) = rsp
       \<and> Requirements (fst (RequestExtraResourceByLabels rsp ident labels gvk)) = Requirements rsp"
  using assms by (auto simp: RequestExtraResourceByName_def RequestExtraResourceByLabels_def)

theorem C2_witness:
  "(Empty widget_gvk \<or> '''' = '''')
   \<and> RequestExtraResourceByName (To None 0 :: nat RunFunctionResponse) '''' ''name'' widget_gvk
       = (To None 0, Some (errors_New ''cannot request extra resource by name with empty ID''))
   \<and> Requirements (fst (RequestExtraResourceByLabels (To None 0 :: nat RunFunctionResponse) '''' None widget_gvk)) = None"
  using C2_empty_id_or_gvk_rejected [where gvk = widget_gvk and ident = "''''" and name = "''name''"
          and rsp = "To None 0 :: nat RunFunctionResponse" and labels = None]
  by (simp add: RequestExtraResourceByName_def Empty_def widget_gvk_def To_def)

text \<open>
  Claim C8. With an empty name, \<open>RequestExtraResourceByName\<close> returns an error and
  leaves the response as it was, whatever the other arguments. With an id and a
  group/version/kind that are not empty, \<open>RequestExtraResourceByLabels\<close> succeeds on an
  empty label set (a nil map or an allocated map without entries) and stores under the id
  a selector with the api version and kind of the group/version/kind and that label set.
\<close>

theorem C8_empty_name_rejected_empty_labels_accepted:
  "(\<exists>message. snd (RequestExtraResourceByName rsp ident '''' gvk) = Some (errors_New message))
   \<and> fst (RequestExtraResourceByName rsp ident '''' gvk) = rsp
   \<and> Requirements (fst (RequestExtraResourceByName rsp ident '''' gvk)) = Requirements rsp
   \<and> (\<not> Empty gvk \<and> ident \<noteq> '''' \<longrightarrow>
        snd (RequestExtraResourceByLabels rsp ident None gvk) = None
      \<and> extra_entry (fst (RequestExtraResourceByLabels rsp ident None gvk)) ident
          = Some \<lparr>ApiVersion = GroupVersion_String gvk, rs_Kind = Kind gvk,
                  Match = Some (ResourceSelector_MatchLabels (Some \<lparr>Labels = None\<rparr>))\<rparr>
      \<and> snd (RequestExtraResourceByLabels rsp ident (Some Map.empty) gvk) = None
      \<and> extra_entry (fst (RequestExtraResourceByLabels rsp ident (Some Map.empty) gvk)) ident
          = Some \<lparr>ApiVersion = GroupVersion_String gvk, rs_Kind = Kind gvk,
                  Match = Some (ResourceSelector_MatchLabels (Some \<lparr>Labels = Some Map.empty\<rparr>))\<rparr>)"
proof -
  have "\<exists>message. snd (RequestExtraResourceByName rsp ident '''' gvk) = Some (errors_New message)"
    and "fst (RequestExtraResourceByName rsp ident '''' gvk) = rsp"
    by (simp_all add: RequestExtraResourceByName_def)
  then show ?thesis
    by (simp add: ByLabels_ok extra_entry_ByLabels)
qed

theorem C8_witness:
  "\<not> Empty widget_gvk \<and> ''req-1'' \<noteq> ''''
   \<and> RequestExtraResourceByName populated_rsp ''req-1'' '''' widget_gvk
       = (populated_rsp,
          Some (errors_New ''cannot request extra resource by empty name with empty name''))
   \<and> snd (RequestExtraResourceByLabels populated_rsp ''req-1'' (Some Map.empty) widget_gvk) = None
   \<and> extra_entry (fst (RequestExtraResourceByLabels populated_rsp ''req-1'' (Some Map.empty) widget_gvk))
        ''req-1''
       = Some \<lparr>ApiVersion = ''example.org/v1'', rs_Kind = ''Widget'',
               Match = Some (ResourceSelector_MatchLabels (Some \<lparr>Labels = Some Map.empty\<rparr>))\<rparr>"
  using C8_empty_name_rejected_empty_labels_accepted
          [where rsp = populated_rsp and ident = "''req-1''" and gvk = widget_gvk]
  by (simp add: RequestExtraResourceByName_def Empty_def GroupVersion_String_def widget_gvk_def)

subsection \<open>Fatal, Warning, Normal and Normalf\<close>

lemma Fatal_Some:
  "Fatal rsp (Some e) =
   (rsp\<lparr>Results := Some (results_list rsp @ [\<lparr>Severity = SEVERITY_FATAL, Message = Error e\<rparr>])\<rparr>,
    None)"
  by (cases "Results rsp") (simp_all add: Fatal_def results_list_def go_append_def Let_def)

lemma Fatal_None:
  "Fatal rsp None = (rsp\<lparr>Results := Some (results_list rsp)\<rparr>, Some nil_pointer_dereference)"
  by (cases "Results rsp") (simp_all add: Fatal_def results_list_def Let_def)

lemma Warning_Some:
  "Warning rsp (Some e) =
   (rsp\<lparr>Results := Some (results_list rsp @ [\<lparr>Severity = SEVERITY_WARNING, Message = Error e\<rparr>])\<rparr>,
    None)"
  by (cases "Results rsp") (simp_all add: Warning_def results_list_def go_append_def Let_def)

lemma Warning_None:
  "Warning rsp None = (rsp\<lparr>Results := Some (results_list rsp)\<rparr>, Some nil_pointer_dereference)"
  by (cases "Results rsp") (simp_all add: Warning_def results_list_def Let_def)

lemma Normal_eq:
  "Normal rsp message =
   rsp\<lparr>Results := Some (results_list rsp @ [\<lparr>Severity = SEVERITY_NORMAL, Message = message\<rparr>])\<rparr>"
  by (cases "Results rsp") (simp_all add: Normal_def results_list_def go_append_def Let_def)















subsection \<open>SetDesiredComposedResources\<close>

lemma store_Resource_entry:
  "GetResources (Desired rsp) \<noteq> None \<Longrightarrow>
   resources_entry (store_Resource rsp name r) = (resources_entry rsp)(name \<mapsto> r)"
  by (rule ext) (auto simp: resources_entry_def store_Resource_def GetResources_def split: option.splits)

lemma store_Resource_allocated:
  "GetResources (Desired rsp) \<noteq> None \<Longrightarrow> GetResources (Desired (store_Resource rsp name r)) \<noteq> None"
  by (auto simp: store_Resource_def GetResources_def split: option.splits)

lemma store_Resource_Composite:
  "GetComposite (Desired (store_Resource rsp name r)) = GetComposite (Desired rsp)"
  by (auto simp: store_Resource_def GetComposite_def split: option.splits)

lemma range_dcds_ok_step:
  "serializes A dcd \<Longrightarrow>
   range_dcds A rsp ((name, dcd) # rest) =
   range_dcds A (store_Resource rsp name (built_Resource A dcd)) rest"
  by (cases "A (dcd_Resource dcd)") (simp add: serializes_def built_Resource_def)

lemma range_dcds_fail_step:
  "snd (A (dcd_Resource dcd)) = Some e \<Longrightarrow> range_dcds A rsp ((name, dcd) # rest) = (rsp, Some e)"
  by (cases "A (dcd_Resource dcd)") simp

lemma range_dcds_stop:
  "\<not> serializes A dcd \<Longrightarrow> fst (range_dcds A rsp ((name, dcd) # rest)) = rsp"
  by (cases "A (dcd_Resource dcd)") (auto simp: serializes_def)

declare range_dcds.simps(2) [simp del]

lemma range_dcds_append:
  "list_all (\<lambda>(n, d). serializes A d) pre \<Longrightarrow>
   range_dcds A rsp (pre @ rest) = range_dcds A (fst (range_dcds A rsp pre)) rest"
proof (induction pre arbitrary: rsp)
  case Nil
  then show ?case by simp
next
  case (Cons x pre)
  obtain n d where x: "x = (n, d)" by (cases x)
  from Cons.prems x have ok: "serializes A d" and rest: "list_all (\<lambda>(n, d). serializes A d) pre"
    by simp_all
  show ?case
    unfolding x append_Cons range_dcds_ok_step [OF ok]
    by (rule Cons.IH [OF rest])
qed

lemma range_dcds_all_ok:
  "list_all (\<lambda>(n, d). serializes A d) dcds \<Longrightarrow> snd (range_dcds A rsp dcds) = None"
proof (induction dcds arbitrary: rsp)
  case Nil
  then show ?case by simp
next
  case (Cons x dcds)
  obtain n d where x: "x = (n, d)" by (cases x)
  from Cons.prems x have ok: "serializes A d" and rest: "list_all (\<lambda>(n, d). serializes A d) dcds"
    by simp_all
  show ?case
    unfolding x range_dcds_ok_step [OF ok]
    by (rule Cons.IH [OF rest])
qed

lemma range_dcds_allocated:
  "GetResources (Desired rsp) \<noteq> None \<Longrightarrow>
   GetResources (Desired (fst (range_dcds A rsp dcds))) \<noteq> None"
proof (induction dcds arbitrary: rsp)
  case Nil
  then show ?case by simp
next
  case (Cons x dcds)
  obtain n d where x: "x = (n, d)" by (cases x)
  show ?case
  proof (cases "serializes A d")
    case True
    show ?thesis
      unfolding x range_dcds_ok_step [OF True]
      by (rule Cons.IH) (rule store_Resource_allocated [OF Cons.prems])
  next
    case False
    then show ?thesis
      using Cons.prems by (simp add: x range_dcds_stop)
  qed
qed

lemma range_dcds_other_names:
  "name \<notin> fst ` set dcds \<Longrightarrow>
   resources_entry (fst (range_dcds A rsp dcds)) name = resources_entry rsp name"
proof (induction dcds arbitrary: rsp)
  case Nil
  then show ?case by simp
next
  case (Cons x dcds)
  obtain n d where x: "x = (n, d)" by (cases x)
  from Cons.prems x have ne: "name \<noteq> n" and rest: "name \<notin> fst ` set dcds"
    by auto
  have store: "resources_entry (store_Resource rsp n r) name = resources_entry rsp name" for r
    using ne
    by (auto simp: resources_entry_def store_Resource_def GetResources_def split: option.splits)
  show ?case
  proof (cases "serializes A d")
    case True
    show ?thesis
      unfolding x range_dcds_ok_step [OF True]
      by (simp add: Cons.IH [OF rest] store)
  next
    case False
    then show ?thesis
      by (simp add: x range_dcds_stop)
  qed
qed

lemma range_dcds_written:
  "GetResources (Desired rsp) \<noteq> None \<Longrightarrow> list_all (\<lambda>(n, d). serializes A d) dcds \<Longrightarrow>
   distinct (map fst dcds) \<Longrightarrow> (name, dcd) \<in> set dcds \<Longrightarrow>
   resources_entry (fst (range_dcds A rsp dcds)) name = Some (built_Resource A dcd)"
proof (induction dcds arbitrary: rsp)
  case Nil
  then show ?case by simp
next
  case (Cons x dcds)
  obtain n d where x: "x = (n, d)" by (cases x)
  from Cons.prems x have ok: "serializes A d" and rest: "list_all (\<lambda>(n, d). serializes A d) dcds"
    and dist: "distinct (map fst dcds)" and fresh: "n \<notin> fst ` set dcds"
    by simp_all
  let ?rsp = "store_Resource rsp n (built_Resource A d)"
  have alloc: "GetResources (Desired ?rsp) \<noteq> None"
    by (rule store_Resource_allocated [OF Cons.prems(1)])
  show ?case
  proof (cases "(name, dcd) = (n, d)")
    case True
    then have "resources_entry (fst (range_dcds A ?rsp dcds)) name = resources_entry ?rsp name"
      using fresh by (simp add: range_dcds_other_names)
    also have "\<dots> = Some (built_Resource A dcd)"
      using True by (simp add: store_Resource_entry [OF Cons.prems(1)])
    finally show ?thesis
      unfolding x range_dcds_ok_step [OF ok] .
  next
    case False
    with Cons.prems(4) x have "(name, dcd) \<in> set dcds" by auto
    from Cons.IH [OF alloc rest dist this] show ?thesis
      unfolding x range_dcds_ok_step [OF ok] .
  qed
qed

lemma range_dcds_frame:
  "fst (range_dcds A rsp dcds) = rsp\<lparr>Desired := Desired (fst (range_dcds A rsp dcds))\<rparr>"
proof (induction dcds arbitrary: rsp)
  case Nil
  then show ?case by simp
next
  case (Cons x dcds)
  obtain n d where x: "x = (n, d)" by (cases x)
  show ?case
  proof (cases "serializes A d")
    case True
    let ?rsp = "store_Resource rsp n (built_Resource A d)"
    have "fst (range_dcds A ?rsp dcds) = ?rsp\<lparr>Desired := Desired (fst (range_dcds A ?rsp dcds))\<rparr>"
      by (rule Cons.IH)
    also have "\<dots> = rsp\<lparr>Desired := Desired (fst (range_dcds A ?rsp dcds))\<rparr>"
      by (simp add: store_Resource_def)
    finally show ?thesis
      unfolding x range_dcds_ok_step [OF True] .
  next
    case False
    then show ?thesis
      by (simp add: x range_dcds_stop)
  qed
qed

lemma range_dcds_Composite:
  "GetComposite (Desired (fst (range_dcds A rsp dcds))) = GetComposite (Desired rsp)"
proof (induction dcds arbitrary: rsp)
  case Nil
  then show ?case by simp
next
  case (Cons x dcds)
  obtain n d where x: "x = (n, d)" by (cases x)
  show ?case
  proof (cases "serializes A d")
    case True
    show ?thesis
      unfolding x range_dcds_ok_step [OF True]
      by (simp add: Cons.IH store_Resource_Composite)
  next
    case False
    then show ?thesis
      by (simp add: x range_dcds_stop)
  qed
qed

lemma range_dcds_dom:
  "GetResources (Desired rsp) \<noteq> None \<Longrightarrow>
   dom (resources_entry rsp) \<subseteq> dom (resources_entry (fst (range_dcds A rsp dcds)))"
proof (induction dcds arbitrary: rsp)
  case Nil
  then show ?case by simp
next
  case (Cons x dcds)
  obtain n d where x: "x = (n, d)" by (cases x)
  show ?case
  proof (cases "serializes A d")
    case True
    let ?rsp = "store_Resource rsp n (built_Resource A d)"
    have "dom (resources_entry rsp) \<subseteq> dom (resources_entry ?rsp)"
      by (auto simp: store_Resource_entry [OF Cons.prems])
    also have "\<dots> \<subseteq> dom (resources_entry (fst (range_dcds A ?rsp dcds)))"
      by (rule Cons.IH) (rule store_Resource_allocated [OF Cons.prems])
    finally show ?thesis
      unfolding x range_dcds_ok_step [OF True] .
  next
    case False
    then show ?thesis
      by (simp add: x range_dcds_stop)
  qed
qed

lemma alloc_Desired_Resources: "GetResources (Desired (alloc_Desired rsp)) \<noteq> None"
  by (cases "Desired rsp") (auto simp: alloc_Desired_def zero_State_def GetResources_def Let_def)

lemma alloc_Desired_entry: "resources_entry (alloc_Desired rsp) = resources_entry rsp"
  by (rule ext, cases "Desired rsp")
     (auto simp: alloc_Desired_def zero_State_def resources_entry_def GetResources_def Let_def
           split: option.splits)

lemma alloc_Desired_Composite: "GetComposite (Desired (alloc_Desired rsp)) = GetComposite (Desired rsp)"
  by (cases "Desired rsp")
     (auto simp: alloc_Desired_def zero_State_def GetComposite_def GetResources_def Let_def)

lemma SetDesiredComposedResources_eq:
  "SetDesiredComposedResources A rsp dcds = range_dcds A (alloc_Desired rsp) dcds"
  by (simp add: SetDesiredComposedResources_def alloc_Desired_def Let_def)

lemma SDCR_other_names:
  "name \<notin> fst ` set dcds \<Longrightarrow>
   resources_entry (fst (SetDesiredComposedResources A rsp dcds)) name = resources_entry rsp name"
  by (simp add: SetDesiredComposedResources_eq range_dcds_other_names alloc_Desired_entry)

lemma SDCR_dom:
  "dom (resources_entry rsp) \<subseteq> dom (resources_entry (fst (SetDesiredComposedResources A rsp dcds)))"
  using range_dcds_dom [OF alloc_Desired_Resources, of rsp A dcds]
  by (simp add: SetDesiredComposedResources_eq alloc_Desired_entry)

lemma SDCR_Composite:
  "GetComposite (Desired (fst (SetDesiredComposedResources A rsp dcds))) = GetComposite (Desired rsp)"
  by (simp add: SetDesiredComposedResources_eq range_dcds_Composite alloc_Desired_Composite)

lemma SDCR_frame:
  "fst (SetDesiredComposedResources A rsp dcds) =
   rsp\<lparr>Desired := Desired (fst (SetDesiredComposedResources A rsp dcds))\<rparr>"
proof -
  let ?r = "alloc_Desired rsp"
  have "fst (range_dcds A ?r dcds) = ?r\<lparr>Desired := Desired (fst (range_dcds A ?r dcds))\<rparr>"
    by (rule range_dcds_frame)
  also have "\<dots> = rsp\<lparr>Desired := Desired (fst (range_dcds A ?r dcds))\<rparr>"
    by (simp add: alloc_Desired_def Let_def)
  finally show ?thesis
    by (simp add: SetDesiredComposedResources_eq)
qed

lemma SDCR_written:
  "list_all (\<lambda>(n, d). serializes A d) dcds \<Longrightarrow> distinct (map fst dcds) \<Longrightarrow>
   (name, dcd) \<in> set dcds \<Longrightarrow>
   resources_entry (fst (SetDesiredComposedResources A rsp dcds)) name = Some (built_Resource A dcd)"
  by (simp add: SetDesiredComposedResources_eq range_dcds_written [OF alloc_Desired_Resources])

lemma SDCR_all_ok:
  "list_all (\<lambda>(n, d). serializes A d) dcds \<Longrightarrow> snd (SetDesiredComposedResources A rsp dcds) = None"
  by (simp add: SetDesiredComposedResources_eq range_dcds_all_ok)

lemma SDCR_stops:
  assumes pre: "list_all (\<lambda>(n, d). serializes A d) pre"
      and fail: "snd (A (dcd_Resource dcd)) = Some e"
  shows "SetDesiredComposedResources A rsp (pre @ (name, dcd) # post)
         = (fst (SetDesiredComposedResources A rsp pre), Some e)"
  unfolding SetDesiredComposedResources_eq range_dcds_append [OF pre]
  using fail by (rule range_dcds_fail_step [where A = A and dcd = dcd and e = e])

lemma Ready_set_Ready: "Ready (set_Ready ready r) = ready_enum ready"
  by (cases ready) (simp_all add: set_Ready_def)

text \<open>
  Claim C4. Let the entries be visited in the order \<open>pre\<close>, then \<open>(name, dcd)\<close>, then
  \<open>post\<close>, where every entry of \<open>pre\<close> serializes and \<open>dcd\<close> does not. Then the call
  returns the error of \<open>dcd\<close> as \<^verbatim>\<open>AsStruct\<close> gave it, and leaves the response exactly
  as a call on \<open>pre\<close> alone leaves it: nothing of \<open>post\<close> is processed, every entry of
  \<open>pre\<close> is in the desired resources, and every other name, in the input or not, has
  the entry it had before.
\<close>

theorem C4_stops_at_first_failure_keeps_earlier_writes:
  assumes "list_all (\<lambda>(n, d). serializes AsStruct d) pre"
      and "snd (AsStruct (dcd_Resource dcd)) = Some e"
      and "distinct (map fst (pre @ (name, dcd) # post))"
  shows "SetDesiredComposedResources AsStruct rsp (pre @ (name, dcd) # post)
           = (fst (SetDesiredComposedResources AsStruct rsp pre), Some e)
       \<and> (\<forall>(n, d) \<in> set pre.
             resources_entry (fst (SetDesiredComposedResources AsStruct rsp (pre @ (name, dcd) # post))) n
               = Some (built_Resource AsStruct d))
       \<and> (\<forall>n. n \<notin> fst ` set pre \<longrightarrow>
             resources_entry (fst (SetDesiredComposedResources AsStruct rsp (pre @ (name, dcd) # post))) n
               = resources_entry rsp n)"
proof -
  have stop: "SetDesiredComposedResources AsStruct rsp (pre @ (name, dcd) # post)
           = (fst (SetDesiredComposedResources AsStruct rsp pre), Some e)"
    using assms(1,2) by (rule SDCR_stops)
  from assms(3) have dist: "distinct (map fst pre)"
    by simp
  have written: "resources_entry (fst (SetDesiredComposedResources AsStruct rsp pre)) n
                   = Some (built_Resource AsStruct d)"
    if "(n, d) \<in> set pre" for n d
    using assms(1) dist that by (rule SDCR_written)
  have kept: "resources_entry (fst (SetDesiredComposedResources AsStruct rsp pre)) n
                = resources_entry rsp n"
    if "n \<notin> fst ` set pre" for n
    using that by (rule SDCR_other_names)
  show ?thesis
    unfolding stop fst_conv using written kept by blast
qed

theorem C4_witness:
  "list_all (\<lambda>(n, d). serializes fields_AsStruct d) [(''cache'', cache_dcd)]
   \<and> snd (fields_AsStruct (dcd_Resource bad_dcd)) 
       = Some (errors_Wrapped ''cannot create new Struct from []field''
                (errors_New ''duplicate field''))
   \<and> distinct (map fst ([(''cache'', cache_dcd)] @ (''bad'', bad_dcd) # [(''queue'', queue_dcd)]))
   \<and> snd (SetDesiredComposedResources fields_AsStruct populated_rsp
             ([(''cache'', cache_dcd)] @ (''bad'', bad_dcd) # [(''queue'', queue_dcd)]))
       
       = Some (errors_Wrapped ''cannot create new Struct from []field''
                (errors_New ''duplicate field''))
   \<and> resources_entry (fst (SetDesiredComposedResources fields_AsStruct populated_rsp
             ([(''cache'', cache_dcd)] @ (''bad'', bad_dcd) # [(''queue'', queue_dcd)]))) ''cache''
       = Some \<lparr>Resource = Some \<lparr>Fields = Some [''size'' \<mapsto> 3]\<rparr>, ConnectionDetails = None,
               Ready = READY_TRUE\<rparr>
   \<and> resources_entry (fst (SetDesiredComposedResources fields_AsStruct populated_rsp
             ([(''cache'', cache_dcd)] @ (''bad'', bad_dcd) # [(''queue'', queue_dcd)]))) ''db''
       = Some \<lparr>Resource = None, ConnectionDetails = None, Ready = READY_TRUE\<rparr>
   \<and> resources_entry (fst (SetDesiredComposedResources fields_AsStruct populated_rsp
             ([(''cache'', cache_dcd)] @ (''bad'', bad_dcd) # [(''queue'', queue_dcd)]))) ''queue''
       = None"
  using C4_stops_at_first_failure_keeps_earlier_writes
          [where AsStruct = fields_AsStruct and pre = "[(''cache'', cache_dcd)]" and dcd = bad_dcd
             and e = "errors_Wrapped ''cannot create new Struct from []field''
                        (errors_New ''duplicate field'')"
             and name = "''bad''"
             and post = "[(''queue'', queue_dcd)]" and rsp = populated_rsp]
  by (simp add: example_defs eval_defs)

text \<open>
  Claim C7. The switch inside \<open>SetDesiredComposedResources\<close> maps Unspecified to
  READY_UNSPECIFIED, False to READY_FALSE and True to READY_TRUE; it agrees with the total
  function \<open>ready_enum\<close> on every variant, and after a call that succeeds each entry of
  the input is stored with the readiness that \<open>ready_enum\<close> gives.
\<close>

theorem C7_readiness_mapping:
  "Ready (set_Ready ReadyUnspecified r) = READY_UNSPECIFIED
   \<and> Ready (set_Ready ReadyFalse r) = READY_FALSE
   \<and> Ready (set_Ready ReadyTrue r) = READY_TRUE
   \<and> Ready (set_Ready ready r) = ready_enum ready
   \<and> (list_all (\<lambda>(n, d). serializes AsStruct d) dcds \<and> distinct (map fst dcds)
        \<and> (name, dcd) \<in> set dcds \<longrightarrow>
      map_option Ready (resources_entry (fst (SetDesiredComposedResources AsStruct rsp dcds)) name)
        = Some (ready_enum (dcd_Ready dcd)))"
proof -
  have "map_option Ready (resources_entry (fst (SetDesiredComposedResources AsStruct rsp dcds)) name)
        = Some (ready_enum (dcd_Ready dcd))"
    if "list_all (\<lambda>(n, d). serializes AsStruct d) dcds" "distinct (map fst dcds)"
       "(name, dcd) \<in> set dcds"
    using SDCR_written [OF that] by (simp add: built_Resource_def Ready_set_Ready)
  then show ?thesis
    by (simp add: Ready_set_Ready)
qed

theorem C7_witness:
  "list_all (\<lambda>(n, d). serializes fields_AsStruct d) [(''cache'', cache_dcd), (''queue'', queue_dcd)]
   \<and> distinct (map fst [(''cache'', cache_dcd), (''queue'', queue_dcd)])
   \<and> (''cache'', cache_dcd) \<in> set [(''cache'', cache_dcd), (''queue'', queue_dcd)]
   \<and> map_option Ready (resources_entry (fst (SetDesiredComposedResources fields_AsStruct
        (To None 0) [(''cache'', cache_dcd), (''queue'', queue_dcd)])) ''cache'') = Some READY_TRUE"
  using C7_readiness_mapping
          [where AsStruct = fields_AsStruct and dcds = "[(''cache'', cache_dcd), (''queue'', queue_dcd)]"
             and name = "''cache''" and dcd = cache_dcd and rsp = "To None 0"]
  by (simp add: example_defs eval_defs To_def req_GetDesired_def req_GetContext_def
                req_GetMeta_def req_GetTag_def)

subsection \<open>SetDesiredCompositeResource\<close>

lemma SetDesiredCompositeResource_error:
  "snd (SetDesiredCompositeResource AsStruct T rsp xr) =
     errors_Wrapf (snd (AsStruct (xr_Resource xr)))
       (''cannot convert '' @ T (xr_Resource xr) @ '' to desired composite resource'')"
  by (cases "AsStruct (xr_Resource xr)") (simp add: SetDesiredCompositeResource_def Let_def)

lemma SetDesiredCompositeResource_Desired:
  "Desired (fst (SetDesiredCompositeResource AsStruct T rsp xr)) =
     Some ((case Desired rsp of None \<Rightarrow> zero_State | Some d \<Rightarrow> d)
            \<lparr>Composite := Some \<lparr>Resource = fst (AsStruct (xr_Resource xr)),
                                  ConnectionDetails = xr_ConnectionDetails xr,
                                  Ready = READY_UNSPECIFIED\<rparr>\<rparr>)"
  by (cases "AsStruct (xr_Resource xr)"; cases "Desired rsp")
     (simp_all add: SetDesiredCompositeResource_def Let_def)

text \<open>
  Claim C10. When \<^verbatim>\<open>AsStruct\<close> fails, \<open>SetDesiredCompositeResource\<close> returns the
  wrapped error and has nevertheless written: the desired state is allocated, its
  composite is a resource whose body is the struct that \<^verbatim>\<open>AsStruct\<close> returned with its
  error (nil when it returned nil) and whose connection details are those of the input,
  and the desired composed resources are as before.
\<close>

theorem C10_composite_written_despite_error:
  assumes "snd (AsStruct (xr_Resource xr)) = Some e"
  shows "snd (SetDesiredCompositeResource AsStruct T rsp xr)
           = Some (errors_Wrapped
                     (''cannot convert '' @ T (xr_Resource xr) @ '' to desired composite resource'') e)
       \<and> Desired (fst (SetDesiredCompositeResource AsStruct T rsp xr)) \<noteq> None
       \<and> GetComposite (Desired (fst (SetDesiredCompositeResource AsStruct T rsp xr)))
           = Some \<lparr>Resource = fst (AsStruct (xr_Resource xr)),
                   ConnectionDetails = xr_ConnectionDetails xr,
                   Ready = READY_UNSPECIFIED\<rparr>
       \<and> GetResources (Desired (fst (SetDesiredCompositeResource AsStruct T rsp xr)))
           = GetResources (Desired rsp)"
proof -
  have "snd (SetDesiredCompositeResource AsStruct T rsp xr)
           = Some (errors_Wrapped
                     (''cannot convert '' @ T (xr_Resource xr) @ '' to desired composite resource'') e)"
    using assms by (simp add: SetDesiredCompositeResource_error errors_Wrapf_def)
  moreover have "GetResources (Desired (fst (SetDesiredCompositeResource AsStruct T rsp xr)))
           = GetResources (Desired rsp)"
    by (cases "Desired rsp")
       (simp_all add: SetDesiredCompositeResource_Desired GetResources_def zero_State_def)
  ultimately show ?thesis
    by (simp add: SetDesiredCompositeResource_Desired GetComposite_def)
qed

theorem C10_witness:
  "snd (fields_AsStruct (xr_Resource bad_xr)) 
       = Some (errors_Wrapped ''cannot create new Struct from []field''
                (errors_New ''duplicate field''))
   \<and> snd (SetDesiredCompositeResource fields_AsStruct fields_T (To None 0) bad_xr)
       = Some (errors_Wrapped ''cannot convert []field to desired composite resource''
                (errors_Wrapped ''cannot create new Struct from []field''
                  (errors_New ''duplicate field'')))
   \<and> Desired (To None 0 :: nat RunFunctionResponse) = None
   \<and> GetComposite (Desired (fst (SetDesiredCompositeResource fields_AsStruct fields_T (To None 0) bad_xr)))
       = Some \<lparr>Resource = None, ConnectionDetails = Some [''password'' \<mapsto> ''hunter2''],
               Ready = READY_UNSPECIFIED\<rparr>"
proof -
  have fails: "snd (fields_AsStruct (xr_Resource bad_xr)) 
            = Some (errors_Wrapped ''cannot create new Struct from []field''
                     (errors_New ''duplicate field''))"
    and nil: "fst (fields_AsStruct (xr_Resource bad_xr)) = None"
    and cd: "xr_ConnectionDetails bad_xr = Some [''password'' \<mapsto> ''hunter2'']"
    and T: "fields_T (xr_Resource bad_xr) = ''[]field''"
    by (simp_all add: fields_AsStruct_def resource_AsStruct_def fields_marshal_def fields_T_def
                      bad_xr_def)
  have "Desired (To None 0 :: nat RunFunctionResponse) = None"
    by (simp add: To_def req_GetDesired_def)
  with C10_composite_written_despite_error
         [where AsStruct = fields_AsStruct and xr = bad_xr and e = "errors_Wrapped ''cannot create new Struct from []field''
                         (errors_New ''duplicate field'')"
            and T = fields_T and rsp = "To None 0", OF fails] fails
  show ?thesis
    by (simp add: nil cd T)
qed

lemma contains_prefix: "contains xs (xs @ ss)"
proof (cases "xs @ ss")
  case Nil
  then show ?thesis by simp
next
  case (Cons y ys)
  have "take (length xs) (xs @ ss) = xs" by simp
  then show ?thesis by (simp add: Cons)
qed

lemma contains_append: "contains xs (ps @ xs @ ss)"
  by (induction ps) (simp_all add: contains_prefix)

lemma composite_error_names_type:
  "contains (T body)
     (Error (errors_Wrapped (''cannot convert '' @ T body @ '' to desired composite resource'') e))"
proof -
  have "Error (errors_Wrapped (''cannot convert '' @ T body @ '' to desired composite resource'') e)
        = ''cannot convert '' @ T body @ ('' to desired composite resource'' @ '': '' @ Error e)"
    by simp
  then show ?thesis
    by (simp only: contains_append)
qed

lemma resource_AsStruct_fails:
  "marshal body = Inl cause \<Longrightarrow>
   resource_AsStruct marshal T body
   = (None, Some (errors_Wrapped (''cannot create new Struct from '' @ T body) cause))"
  by (simp add: resource_AsStruct_def)

lemma resource_AsStruct_error_names_type:
  "contains (T body) (Error (errors_Wrapped (''cannot create new Struct from '' @ T body) cause))"
proof -
  have "Error (errors_Wrapped (''cannot create new Struct from '' @ T body) cause)
        = ''cannot create new Struct from '' @ T body @ ('': '' @ Error cause)"
    by simp
  then show ?thesis
    by (simp only: contains_append)
qed

text \<open>
  Claim C9. When \<^verbatim>\<open>AsStruct\<close> fails on the body, \<open>SetDesiredCompositeResource\<close>
  returns an error that wraps the error of \<^verbatim>\<open>AsStruct\<close> and whose message names the
  type of the body, and \<open>SetDesiredComposedResources\<close> returns the error of
  \<^verbatim>\<open>AsStruct\<close> itself. With \<^verbatim>\<open>AsStruct\<close> as the specification describes it, whose
  error wraps the underlying serialization failure and names the type, the error that
  either function returns wraps the underlying serialization failure and names the type
  of the offending resource body.
\<close>

theorem C9_conversion_error_wraps_and_names_type:
  "(snd (AsStruct (xr_Resource xr)) = Some e \<longrightarrow>
      (\<exists>e'. snd (SetDesiredCompositeResource AsStruct T rsp xr) = Some e'
           \<and> conversion_error (T (xr_Resource xr)) e e'))
   \<and> (list_all (\<lambda>(n, d). serializes AsStruct d) pre
        \<and> snd (AsStruct (dcd_Resource dcd)) = Some e \<longrightarrow>
      snd (SetDesiredComposedResources AsStruct rsp (pre @ (name, dcd) # post)) = Some e)
   \<and> (marshal (xr_Resource xr) = Inl cause \<longrightarrow>
      (\<exists>e'. snd (SetDesiredCompositeResource (resource_AsStruct marshal T) T rsp xr) = Some e'
           \<and> conversion_error (T (xr_Resource xr)) cause e'))
   \<and> (list_all (\<lambda>(n, d). serializes (resource_AsStruct marshal T) d) pre
        \<and> marshal (dcd_Resource dcd) = Inl cause \<longrightarrow>
      (\<exists>e'. snd (SetDesiredComposedResources (resource_AsStruct marshal T) rsp
                    (pre @ (name, dcd) # post)) = Some e'
           \<and> conversion_error (T (dcd_Resource dcd)) cause e'))"
proof -
  have composite: "\<exists>e'. snd (SetDesiredCompositeResource A T rsp xr) = Some e'
           \<and> conversion_error (T (xr_Resource xr)) e e'"
    if "snd (A (xr_Resource xr)) = Some e" for A e
  proof -
    let ?w = "errors_Wrapped
                (''cannot convert '' @ T (xr_Resource xr) @ '' to desired composite resource'') e"
    have "snd (SetDesiredCompositeResource A T rsp xr) = Some ?w"
      using that by (simp add: SetDesiredCompositeResource_error errors_Wrapf_def)
    moreover have "wraps ?w e"
      by simp
    moreover have "contains (T (xr_Resource xr)) (Error ?w)"
      by (rule composite_error_names_type)
    ultimately show ?thesis
      unfolding conversion_error_def by blast
  qed
  have composed: "snd (SetDesiredComposedResources A rsp (pre @ (name, dcd) # post)) = Some e"
    if "list_all (\<lambda>(n, d). serializes A d) pre" "snd (A (dcd_Resource dcd)) = Some e"
    for A e
    using SDCR_stops [OF that] by simp
  have composite_spec:
    "\<exists>e'. snd (SetDesiredCompositeResource (resource_AsStruct marshal T) T rsp xr) = Some e'
           \<and> conversion_error (T (xr_Resource xr)) cause e'"
    if "marshal (xr_Resource xr) = Inl cause"
  proof -
    let ?e = "errors_Wrapped (''cannot create new Struct from '' @ T (xr_Resource xr)) cause"
    let ?w = "errors_Wrapped
                (''cannot convert '' @ T (xr_Resource xr) @ '' to desired composite resource'') ?e"
    have "snd (SetDesiredCompositeResource (resource_AsStruct marshal T) T rsp xr) = Some ?w"
      using resource_AsStruct_fails
              [where marshal = marshal and body = "xr_Resource xr" and cause = cause and T = T]
            that
      by (simp add: SetDesiredCompositeResource_error errors_Wrapf_def)
    moreover have "wraps ?w cause"
      by simp
    moreover have "contains (T (xr_Resource xr)) (Error ?w)"
      by (rule composite_error_names_type)
    ultimately show ?thesis
      unfolding conversion_error_def by blast
  qed
  have composed_spec:
    "\<exists>e'. snd (SetDesiredComposedResources (resource_AsStruct marshal T) rsp
                    (pre @ (name, dcd) # post)) = Some e'
           \<and> conversion_error (T (dcd_Resource dcd)) cause e'"
    if ok: "list_all (\<lambda>(n, d). serializes (resource_AsStruct marshal T) d) pre"
      and fail: "marshal (dcd_Resource dcd) = Inl cause"
  proof -
    let ?e = "errors_Wrapped (''cannot create new Struct from '' @ T (dcd_Resource dcd)) cause"
    have "snd (resource_AsStruct marshal T (dcd_Resource dcd)) = Some ?e"
      using resource_AsStruct_fails
              [where marshal = marshal and body = "dcd_Resource dcd" and cause = cause and T = T]
            fail
      by simp
    from composed [OF ok this]
    have "snd (SetDesiredComposedResources (resource_AsStruct marshal T) rsp
                 (pre @ (name, dcd) # post)) = Some ?e" .
    moreover have "wraps ?e cause"
      by simp
    moreover have "contains (T (dcd_Resource dcd)) (Error ?e)"
      by (rule resource_AsStruct_error_names_type)
    ultimately have "snd (SetDesiredComposedResources (resource_AsStruct marshal T) rsp
                 (pre @ (name, dcd) # post)) = Some ?e
        \<and> conversion_error (T (dcd_Resource dcd)) cause ?e"
      unfolding conversion_error_def by blast
    then show ?thesis by blast
  qed
  show ?thesis
    using composite composed composite_spec composed_spec by blast
qed

theorem C9_witness:
  "fields_marshal (xr_Resource bad_xr) = Inl (errors_New ''duplicate field'')
   \<and> snd (SetDesiredCompositeResource fields_AsStruct fields_T (To None 0) bad_xr)
       = Some (errors_Wrapped ''cannot convert []field to desired composite resource''
                (errors_Wrapped ''cannot create new Struct from []field''
                  (errors_New ''duplicate field'')))
   \<and> list_all (\<lambda>(n, d). serializes fields_AsStruct d) [(''cache'', cache_dcd)]
   \<and> fields_marshal (dcd_Resource bad_dcd) = Inl (errors_New ''duplicate field'')
   \<and> snd (SetDesiredComposedResources fields_AsStruct populated_rsp
             ([(''cache'', cache_dcd)] @ (''bad'', bad_dcd) # [(''queue'', queue_dcd)]))
       = Some (errors_Wrapped ''cannot create new Struct from []field''
                (errors_New ''duplicate field''))
   \<and> conversion_error ''[]field'' (errors_New ''duplicate field'')
        (errors_Wrapped ''cannot create new Struct from []field'' (errors_New ''duplicate field''))"
proof -
  have fail_xr: "fields_marshal (xr_Resource bad_xr) = Inl (errors_New ''duplicate field'')"
    and fail_dcd: "fields_marshal (dcd_Resource bad_dcd) = Inl (errors_New ''duplicate field'')"
    and ok: "list_all (\<lambda>(n, d). serializes (resource_AsStruct fields_marshal fields_T) d)
               [(''cache'', cache_dcd)]"
    by (simp_all add: fields_marshal_def bad_xr_def bad_dcd_def cache_dcd_def serializes_def
                      resource_AsStruct_def)
  note claim = C9_conversion_error_wraps_and_names_type
      [where marshal = fields_marshal and T = fields_T and xr = bad_xr and dcd = bad_dcd
         and cause = "errors_New ''duplicate field''" and pre = "[(''cache'', cache_dcd)]"
         and name = "''bad''" and post = "[(''queue'', queue_dcd)]"
         and AsStruct = fields_AsStruct and e = "errors_New ''duplicate field''"]
  from claim fail_dcd ok
  obtain e' where composed:
      "snd (SetDesiredComposedResources (resource_AsStruct fields_marshal fields_T) populated_rsp
             ([(''cache'', cache_dcd)] @ (''bad'', bad_dcd) # [(''queue'', queue_dcd)])) = Some e'"
    and conv: "conversion_error (fields_T (dcd_Resource bad_dcd)) (errors_New ''duplicate field'') e'"
    by blast
  have returned: "snd (SetDesiredComposedResources (resource_AsStruct fields_marshal fields_T)
                 populated_rsp
                 ([(''cache'', cache_dcd)] @ (''bad'', bad_dcd) # [(''queue'', queue_dcd)]))
        = Some (errors_Wrapped ''cannot create new Struct from []field''
                 (errors_New ''duplicate field''))"
    by (simp add: example_defs eval_defs)
  with composed have e': "e' = errors_Wrapped ''cannot create new Struct from []field''
                                 (errors_New ''duplicate field'')"
    by simp
  have "snd (SetDesiredCompositeResource fields_AsStruct fields_T (To None 0) bad_xr)
       = Some (errors_Wrapped ''cannot convert []field to desired composite resource''
                (errors_Wrapped ''cannot create new Struct from []field''
                  (errors_New ''duplicate field'')))"
    by (simp add: SetDesiredCompositeResource_error errors_Wrapf_def example_defs bad_xr_def)
  with fail_xr fail_dcd ok returned conv show ?thesis
    by (simp add: e' fields_AsStruct_def fields_T_def)
qed

subsection \<open>All builders keep what is stored\<close>

text \<open>
  Claim C3. \<open>SetContextKey\<close>, \<open>SetDesiredComposedResources\<close>,
  \<open>RequestExtraResourceByName\<close>, \<open>RequestExtraResourceByLabels\<close> and the four
  appenders keep every entry stored before the call, except the entry under a key that
  the call writes: every other key of the container written to has its entry, the
  container never loses a key, the results that were there stay in front of the new one,
  and the call changes no section of the response but its own (for
  \<open>SetDesiredComposedResources\<close> the desired composite stays as well). This holds for
  every response, so also for the response that an earlier call has left: a second call
  loses no key either. \<open>Fatal\<close> and \<open>Warning\<close> keep the results also when they
  panic on a nil error.
\<close>

theorem C3_builders_keep_stored_entries:
  "(k \<noteq> key \<longrightarrow> context_entry (SetContextKey rsp key v) k = context_entry rsp k)
   \<and> dom (context_entry rsp) \<subseteq> dom (context_entry (SetContextKey rsp key v))
   \<and> SetContextKey rsp key v = rsp\<lparr>Context := Context (SetContextKey rsp key v)\<rparr>
   \<and> dom (context_entry rsp)
        \<subseteq> dom (context_entry (SetContextKey (SetContextKey rsp key v) key' v'))
   \<and> (name \<notin> fst ` set dcds \<longrightarrow>
        resources_entry (fst (SetDesiredComposedResources AsStruct rsp dcds)) name
          = resources_entry rsp name)
   \<and> dom (resources_entry rsp)
        \<subseteq> dom (resources_entry (fst (SetDesiredComposedResources AsStruct rsp dcds)))
   \<and> dom (resources_entry rsp)
        \<subseteq> dom (resources_entry (fst (SetDesiredComposedResources AsStruct
                    (fst (SetDesiredComposedResources AsStruct rsp dcds)) dcds')))
   \<and> GetComposite (Desired (fst (SetDesiredComposedResources AsStruct rsp dcds)))
        = GetComposite (Desired rsp)
   \<and> fst (SetDesiredComposedResources AsStruct rsp dcds)
        = rsp\<lparr>Desired := Desired (fst (SetDesiredComposedResources AsStruct rsp dcds))\<rparr>
   \<and> (i \<noteq> ident \<longrightarrow>
        extra_entry (fst (RequestExtraResourceByName rsp ident n gvk)) i = extra_entry rsp i
      \<and> extra_entry (fst (RequestExtraResourceByLabels rsp ident labels gvk)) i = extra_entry rsp i)
   \<and> dom (extra_entry rsp) \<subseteq> dom (extra_entry (fst (RequestExtraResourceByName rsp ident n gvk)))
   \<and> dom (extra_entry rsp)
        \<subseteq> dom (extra_entry (fst (RequestExtraResourceByLabels rsp ident labels gvk)))
   \<and> fst (RequestExtraResourceByName rsp ident n gvk)
        = rsp\<lparr>Requirements := Requirements (fst (RequestExtraResourceByName rsp ident n gvk))\<rparr>
   \<and> fst (RequestExtraResourceByLabels rsp ident labels gvk)
        = rsp\<lparr>Requirements := Requirements (fst (RequestExtraResourceByLabels rsp ident labels gvk))\<rparr>
   \<and> Fatal rsp (Some err)
        = (rsp\<lparr>Results := Some (results_list rsp
                                   @ [\<lparr>Severity = SEVERITY_FATAL, Message = Error err\<rparr>])\<rparr>, None)
   \<and> Warning rsp (Some err)
        = (rsp\<lparr>Results := Some (results_list rsp
                                   @ [\<lparr>Severity = SEVERITY_WARNING, Message = Error err\<rparr>])\<rparr>, None)
   \<and> Fatal rsp None = (rsp\<lparr>Results := Some (results_list rsp)\<rparr>, Some nil_pointer_dereference)
   \<and> Warning rsp None = (rsp\<lparr>Results := Some (results_list rsp)\<rparr>, Some nil_pointer_dereference)
   \<and> Normal rsp message
        = rsp\<lparr>Results := Some (results_list rsp @ [\<lparr>Severity = SEVERITY_NORMAL, Message = message\<rparr>])\<rparr>
   \<and> Normalf Sprintf rsp format a
        = rsp\<lparr>Results := Some (results_list rsp
                                 @ [\<lparr>Severity = SEVERITY_NORMAL, Message = Sprintf format a\<rparr>])\<rparr>"
proof -
  have ctx: "k \<noteq> key \<longrightarrow> context_entry (SetContextKey rsp key v) k = context_entry rsp k"
    and ctx_dom: "dom (context_entry rsp) \<subseteq> dom (context_entry (SetContextKey rsp key v))"
    by (auto simp: context_entry_SetContextKey)
  have res: "name \<notin> fst ` set dcds \<longrightarrow>
        resources_entry (fst (SetDesiredComposedResources AsStruct rsp dcds)) name
          = resources_entry rsp name"
    by (simp add: SDCR_other_names)
  have ext: "i \<noteq> ident \<longrightarrow>
        extra_entry (fst (RequestExtraResourceByName rsp ident n gvk)) i = extra_entry rsp i
      \<and> extra_entry (fst (RequestExtraResourceByLabels rsp ident labels gvk)) i = extra_entry rsp i"
    by (simp add: extra_entry_ByName extra_entry_ByLabels)
  have ext_dom:
    "dom (extra_entry rsp) \<subseteq> dom (extra_entry (fst (RequestExtraResourceByName rsp ident n gvk)))"
    "dom (extra_entry rsp)
       \<subseteq> dom (extra_entry (fst (RequestExtraResourceByLabels rsp ident labels gvk)))"
    by (auto simp: extra_entry_ByName extra_entry_ByLabels)
  have nf: "Normalf Sprintf rsp format a
        = rsp\<lparr>Results := Some (results_list rsp
                                 @ [\<lparr>Severity = SEVERITY_NORMAL, Message = Sprintf format a\<rparr>])\<rparr>"
    unfolding Normalf_def by (rule Normal_eq)
  have ctx_twice: "dom (context_entry rsp)
        \<subseteq> dom (context_entry (SetContextKey (SetContextKey rsp key v) key' v'))"
    by (auto simp: context_entry_SetContextKey)
  have res_twice: "dom (resources_entry rsp)
        \<subseteq> dom (resources_entry (fst (SetDesiredComposedResources AsStruct
                    (fst (SetDesiredComposedResources AsStruct rsp dcds)) dcds')))"
    using SDCR_dom [of rsp AsStruct dcds]
          SDCR_dom [of "fst (SetDesiredComposedResources AsStruct rsp dcds)" AsStruct dcds']
    by (rule subset_trans)
  note parts = ctx ctx_dom ctx_twice SetContextKey_frame [of rsp key v] res
    SDCR_dom [of rsp AsStruct dcds] res_twice
    SDCR_Composite [of AsStruct rsp dcds] SDCR_frame [of AsStruct rsp dcds] ext ext_dom
    ByName_frame [of rsp ident n gvk] ByLabels_frame [of rsp ident labels gvk]
    Fatal_Some [of rsp err] Warning_Some [of rsp err] Fatal_None [of rsp] Warning_None [of rsp]
    Normal_eq [of rsp message] nf
  show ?thesis
    by (intro conjI) (rule parts)+
qed

theorem C3_witness:
  "''note'' \<noteq> ''other''
   \<and> context_entry (SetContextKey populated_rsp ''other'' 3) ''note'' = Some 7
   \<and> ''db'' \<notin> fst ` set [(''cache'', cache_dcd)]
   \<and> resources_entry (fst (SetDesiredComposedResources fields_AsStruct populated_rsp
        [(''cache'', cache_dcd)])) ''db''
       = Some \<lparr>Resource = None, ConnectionDetails = None, Ready = READY_TRUE\<rparr>
   \<and> ''req-0'' \<noteq> ''req-1''
   \<and> extra_entry (fst (RequestExtraResourceByName populated_rsp ''req-1'' ''my-resource'' widget_gvk))
        ''req-0''
       = Some \<lparr>ApiVersion = ''v1'', rs_Kind = ''Secret'', Match = Some (ResourceSelector_MatchName ''s'')\<rparr>
   \<and> results_list (Normal populated_rsp ''did a thing'')
       = [\<lparr>Severity = SEVERITY_WARNING, Message = ''earlier''\<rparr>,
          \<lparr>Severity = SEVERITY_NORMAL, Message = ''did a thing''\<rparr>]"
proof -
  note kept = C3_builders_keep_stored_entries
          [where k = "''note''" and key = "''other''" and rsp = populated_rsp and v = 3
             and name = "''db''" and dcds = "[(''cache'', cache_dcd)]" and AsStruct = fields_AsStruct
             and i = "''req-0''" and ident = "''req-1''" and n = "''my-resource''" and gvk = widget_gvk
             and message = "''did a thing''" and labels = None and err = "errors_New ''boom''"
             and Sprintf = Sprintf_strings and format = "''did %s thing''" and a = "[''a'']"]
  have ne: "''note'' \<noteq> ''other''" "''db'' \<notin> fst ` set [(''cache'', cache_dcd)]" "''req-0'' \<noteq> ''req-1''"
    by simp_all
  have ctx: "context_entry (SetContextKey populated_rsp ''other'' 3) ''note''
             = context_entry populated_rsp ''note''"
    using kept ne by blast
  have res: "resources_entry (fst (SetDesiredComposedResources fields_AsStruct populated_rsp
               [(''cache'', cache_dcd)])) ''db'' = resources_entry populated_rsp ''db''"
    using kept ne by blast
  have ext: "extra_entry (fst (RequestExtraResourceByName populated_rsp ''req-1'' ''my-resource''
               widget_gvk)) ''req-0'' = extra_entry populated_rsp ''req-0''"
    using kept ne by blast
  have app: "Normal populated_rsp ''did a thing''
             = populated_rsp\<lparr>Results := Some (results_list populated_rsp
                 @ [\<lparr>Severity = SEVERITY_NORMAL, Message = ''did a thing''\<rparr>])\<rparr>"
    using kept ne by blast
  have "context_entry populated_rsp ''note'' = Some 7"
    by (simp add: context_entry_def GetFields_def populated_rsp_def)
  moreover have "resources_entry populated_rsp ''db''
                 = Some \<lparr>Resource = None, ConnectionDetails = None, Ready = READY_TRUE\<rparr>"
    by (simp add: resources_entry_def GetResources_def populated_rsp_def)
  moreover have "extra_entry populated_rsp ''req-0''
                 = Some \<lparr>ApiVersion = ''v1'', rs_Kind = ''Secret'',
                         Match = Some (ResourceSelector_MatchName ''s'')\<rparr>"
    by (simp add: extra_entry_def GetExtraResources_def populated_rsp_def)
  moreover have "results_list populated_rsp = [\<lparr>Severity = SEVERITY_WARNING, Message = ''earlier''\<rparr>]"
    by (simp add: results_list_def populated_rsp_def)
  ultimately show ?thesis
    unfolding ctx res ext app using ne by (simp add: results_list_def)
qed

subsection \<open>The scenario of the specification\<close>

text \<open>
  A request with tag \<open>abc\<close> and no context, a ttl of 60 seconds, then
  \<open>SetContextKey\<close>, \<open>Normal\<close> and \<open>RequestExtraResourceByName\<close>.
\<close>

lemma end_to_end_scenario:
  "fst (RequestExtraResourceByName
         (Normal (SetContextKey (To (Some \<lparr>req_Meta = Some \<lparr>req_Tag = ''abc''\<rparr>, req_Desired = None,
                                           req_Context = None\<rparr>) 60000000000)
                    ''note'' ''hello'')
            ''did a thing'')
         ''req-1'' ''my-resource'' widget_gvk)
   = \<lparr>Meta = Some \<lparr>Tag = ''abc'', Ttl = Some \<lparr>Seconds = 60, Nanos = 0\<rparr>\<rparr>,
      Desired = None,
      Results = Some [\<lparr>Severity = SEVERITY_NORMAL, Message = ''did a thing''\<rparr>],
      Context = Some \<lparr>Fields = Some [''note'' \<mapsto> ''hello'']\<rparr>,
      Requirements = Some \<lparr>ExtraResources = Some [''req-1'' \<mapsto>
        \<lparr>ApiVersion = ''example.org/v1'', rs_Kind = ''Widget'',
         Match = Some (ResourceSelector_MatchName ''my-resource'')\<rparr>]\<rparr>\<rparr>"
  by (simp add: To_def req_GetMeta_def req_GetTag_def req_GetDesired_def req_GetContext_def
                durationpb_New_def signed_divide_int_def SetContextKey_def GetFields_def Normal_eq
                results_list_def RequestExtraResourceByName_def Empty_def widget_gvk_def
                store_ExtraResource_def GetExtraResources_def GroupVersion_String_def Let_def)

end

